theory Spec2Isabelle
  imports Main "HOL-Library.AList"
begin

section \<open>JavaScript values\<close>

text \<open>
  The repository is untyped at run time (\<open>filter: any\<close>, \<open>createDto: any\<close>, and the
  compiled helper \<open>dist/generic-helper.js\<close> has no types at all), so arguments and
  mapper results are JavaScript values. Numbers are restricted to integers (of the
  range that JavaScript prints in plain decimal); an object is its list of properties
  in insertion order, looked up with \<open>map_of\<close>. An array is an object too: \<open>JArr xs ps\<close>
  has the elements \<open>xs\<close> and, besides its indices and \<open>length\<close>, the named
  properties \<open>ps\<close> that were assigned to it (\<open>a.path = ...\<close>); an array literal has
  none. Prototypes are the built-in ones, which add no enumerable property and no
  \<open>path\<close>.
\<close>

datatype jsval =
    JUndefined
  | JNull
  | JBool bool
  | JNum int
  | JStr string
  | JObj "(string \<times> jsval) list"
  | JArr "jsval list" "(string \<times> jsval) list"

type_synonym props = "(string \<times> jsval) list"

text \<open>What \<open>if (v)\<close> and \<open>!v\<close> test: every object and array is truthy, also the empty
  ones; \<open>undefined\<close>, \<open>null\<close>, \<open>false\<close>, \<open>0\<close> and the empty string are not.\<close>

fun truthy :: "jsval \<Rightarrow> bool" where
  "truthy JUndefined = False"
| "truthy JNull = False"
| "truthy (JBool b) = b"
| "truthy (JNum n) = (n \<noteq> 0)"
| "truthy (JStr s) = (s \<noteq> [])"
| "truthy (JObj ps) = True"
| "truthy (JArr xs ps) = True"

text \<open>Decimal numerals, for array indices used as property keys and for messages.\<close>

function show_nat :: "nat \<Rightarrow> string" where
  "show_nat n =
     (if n < 10 then [char_of (48 + n)]
      else show_nat (n div 10) @ [char_of (48 + n mod 10)])"
  by pat_completeness auto
termination
  by (relation "measure id") auto

declare show_nat.simps [simp del]

definition show_int :: "int \<Rightarrow> string" where
  "show_int i = (if i < 0 then CHR ''-'' # show_nat (nat (- i)) else show_nat (nat i))"

text \<open>
  The object spread \<open>{ ...v }\<close>: the own enumerable properties of \<open>v\<close>. \<open>null\<close>,
  \<open>undefined\<close>, booleans and numbers contribute nothing; an array contributes its
  elements under their indices, then its named properties; a string contributes its
  characters under their indices.
\<close>

fun spread :: "jsval \<Rightarrow> props" where
  "spread (JObj ps) = ps"
| "spread (JArr xs ps) = zip (map show_nat [0 ..< length xs]) xs @ ps"
| "spread (JStr s) = zip (map show_nat [0 ..< length s]) (map (\<lambda>c. JStr [c]) s)"
| "spread v = []"

section \<open>Thrown values\<close>

text \<open>
  What a \<open>throw\<close> or a rejected promise carries. The two framework exceptions are
  subclasses of \<open>Error\<close>; \<open>Error\<close> stands for every other instance of \<open>Error\<close> (the one
  built at line 112 of \<open>generic-database.ts\<close>, a mapper error, a \<open>TypeError\<close>), each with
  its message; \<open>NonError\<close> is any thrown value that is not an instance of \<open>Error\<close>.
\<close>

datatype thrown =
    NotFoundException string
  | BadRequestException string
  | Error string
  | NonError jsval

fun instanceof_Error :: "thrown \<Rightarrow> bool" where
  "instanceof_Error (NonError v) = False"
| "instanceof_Error e = True"

fun instanceof_NotFoundException :: "thrown \<Rightarrow> bool" where
  "instanceof_NotFoundException (NotFoundException msg) = True"
| "instanceof_NotFoundException e = False"

text \<open>\<open>error.message\<close>; the source reads it only under \<open>error instanceof Error\<close>.\<close>

fun message :: "thrown \<Rightarrow> string" where
  "message (NotFoundException msg) = msg"
| "message (BadRequestException msg) = msg"
| "message (Error msg) = msg"
| "message (NonError v) = []"

section \<open>The populate normalizer (\<open>dist/generic-helper.js\<close>)\<close>

text \<open>
  \<open>'path' in v\<close>. On an object it asks for the property. On an array it does the same:
  the indices and \<open>length\<close> are not \<open>path\<close>, so the answer is whether \<open>path\<close> is among
  the array's named properties. On a primitive the operator throws a \<open>TypeError\<close>,
  whose message is the engine's (Node's wording is used here).
\<close>

fun show_primitive :: "jsval \<Rightarrow> string" where
  "show_primitive JUndefined = ''undefined''"
| "show_primitive JNull = ''null''"
| "show_primitive (JBool b) = (if b then ''true'' else ''false'')"
| "show_primitive (JNum n) = show_int n"
| "show_primitive (JStr s) = s"
| "show_primitive v = []"

fun path_in :: "jsval \<Rightarrow> thrown + bool" where
  "path_in (JObj ps) = Inr (map_of ps ''path'' \<noteq> None)"
| "path_in (JArr xs ps) = Inr (map_of ps ''path'' \<noteq> None)"
| "path_in v =
     Inl (Error (''Cannot use 'in' operator to search for 'path' in '' @ show_primitive v))"

text \<open>
  \<^verbatim>\<open>
  function normalizePopulate(populate) {
      if (!populate) return undefined;
      if (typeof populate === 'string' || 'path' in populate) { return [populate]; }
      return populate;
  }
  \<close>
  The disjunction is short-circuit: a string never reaches the \<open>in\<close> operator.
\<close>

definition normalizePopulate :: "jsval \<Rightarrow> thrown + jsval" where
  "normalizePopulate populate =
     (if \<not> truthy populate then Inr JUndefined
      else case populate of
        JStr s \<Rightarrow> Inr (JArr [populate] [])
      | _ \<Rightarrow> (case path_in populate of
                Inl e \<Rightarrow> Inl e
              | Inr has_path \<Rightarrow> if has_path then Inr (JArr [populate] []) else Inr populate))"

section \<open>The document mapper\<close>

text \<open>
  The queries of the mapper's model class. \<open>FindOne f p\<close> is
  \<open>findOne(f)\<close>, followed by \<open>.populate(p)\<close> when \<open>p\<close> is given; \<open>Find\<close> likewise;
  \<open>FindOneAndUpdate f u opts\<close> is \<open>findOneAndUpdate(f, u, opts)\<close>; \<open>Save dto\<close> is
  \<open>new dbModel(dto).save()\<close>. The last four are the mapper's removing operations, which
  \<open>generic-database.ts\<close> never calls; they are listed so that this can be stated.
\<close>

datatype call =
    FindOne props "jsval option"
  | Find props "jsval option"
  | FindOneAndUpdate props jsval props
  | Save jsval
  | DeleteOne props
  | DeleteMany props
  | FindOneAndDelete props
  | FindByIdAndDelete jsval

fun is_removal :: "call \<Rightarrow> bool" where
  "is_removal (DeleteOne f) = True"
| "is_removal (DeleteMany f) = True"
| "is_removal (FindOneAndDelete f) = True"
| "is_removal (FindByIdAndDelete i) = True"
| "is_removal c = False"

fun call_filter :: "call \<Rightarrow> props option" where
  "call_filter (FindOne f p) = Some f"
| "call_filter (Find f p) = Some f"
| "call_filter (FindOneAndUpdate f u opts) = Some f"
| "call_filter (DeleteOne f) = Some f"
| "call_filter (DeleteMany f) = Some f"
| "call_filter (FindOneAndDelete f) = Some f"
| "call_filter c = None"

text \<open>
  The injected \<open>dbModel\<close>: its \<open>modelName\<close>, and what awaiting a query gives, a value
  (\<open>Inr\<close>) or a rejection (\<open>Inl\<close>). The mapper and its store are outside the repository,
  so \<open>exec\<close> is arbitrary. Building a query object (\<open>findOne(...)\<close>, \<open>.populate(...)\<close>,
  \<open>new dbModel(...)\<close>) sends nothing; a failure of the mapper is taken to show when the
  query is awaited.
\<close>

record dbModel =
  modelName :: string
  exec :: "call \<Rightarrow> thrown + jsval"

text \<open>
  A method's run: the queries it sent to the mapper, in order, and how its promise
  settles. Console output is not modelled.
\<close>

type_synonym run = "call list \<times> (thrown + jsval)"

section \<open>\<open>GenericDatabase\<close> (\<open>src/generic-database.ts\<close>)\<close>

text \<open>Lines 23-25 and 92-94:
  \<open>if (populateFields && populateFields.length > 0) query = query.populate(populateFields)\<close>.\<close>

fun populateFields_arg :: "string list option \<Rightarrow> jsval option" where
  "populateFields_arg None = None"
| "populateFields_arg (Some fs) = (if length fs > 0 then Some (JArr (map JStr fs) []) else None)"

definition genericFindByUsername :: "dbModel \<Rightarrow> string \<Rightarrow> string list option \<Rightarrow> run" where
  "genericFindByUsername m username populateFields =
     (let query = FindOne [(''username'', JStr username), (''isDeleted'', JBool False)]
                    (populateFields_arg populateFields)
      in ([query],
          case (case exec m query of
                  Inl error \<Rightarrow> Inl error
                | Inr response \<Rightarrow>
                    if \<not> truthy response
                    then Inl (NotFoundException
                                (''Document with username '' @ username @ '' not found''))
                    else Inr response) of
            Inr response \<Rightarrow> Inr response
          | Inl error \<Rightarrow>
              if instanceof_Error error
              then Inl (NotFoundException
                          (''Error finding document by username: '' @ message error))
              else Inl error))"

definition genericFindAll :: "dbModel \<Rightarrow> run" where
  "genericFindAll m =
     (let query = Find [(''isDeleted'', JBool False)] None
      in ([query],
          case (case exec m query of
                  Inl error \<Rightarrow> Inl error
                | Inr response \<Rightarrow>
                    if \<not> truthy response
                    then Inl (NotFoundException (''No '' @ modelName m @ '' documents found''))
                    else Inr response) of
            Inr response \<Rightarrow> Inr response
          | Inl error \<Rightarrow>
              if instanceof_Error error
              then Inl (NotFoundException (''Error finding all documents: '' @ message error))
              else Inl error))"

definition genericFindOneByIdOrNotFound ::
    "dbModel \<Rightarrow> string \<Rightarrow> string list option \<Rightarrow> run" where
  "genericFindOneByIdOrNotFound m id' populateFields =
     (let query = FindOne [(''_id'', JStr id'), (''isDeleted'', JBool False)]
                    (populateFields_arg populateFields)
      in ([query],
          case (case exec m query of
                  Inl error \<Rightarrow> Inl error
                | Inr response \<Rightarrow>
                    if \<not> truthy response
                    then Inl (NotFoundException
                                (modelName m @ '' Document with id '' @ id' @ '' not found''))
                    else Inr response) of
            Inr response \<Rightarrow> Inr response
          | Inl error \<Rightarrow>
              if instanceof_NotFoundException error then Inl error
              else if instanceof_Error error
              then Inl (Error (''Error finding document: '' @ message error))
              else Inl error))"

definition genericCreateOne :: "dbModel \<Rightarrow> jsval \<Rightarrow> run" where
  "genericCreateOne m createDto =
     (let query = Save createDto
      in ([query],
          case (case exec m query of
                  Inl error \<Rightarrow> Inl error
                | Inr response \<Rightarrow>
                    if \<not> truthy response
                    then Inl (BadRequestException
                                (''Failed to create '' @ modelName m @ '' document''))
                    else Inr response) of
            Inr response \<Rightarrow> Inr response
          | Inl error \<Rightarrow>
              if instanceof_Error error
              then Inl (BadRequestException (''Error creating document: '' @ message error))
              else Inl error))"

definition genericUpdateOne :: "dbModel \<Rightarrow> string \<Rightarrow> jsval \<Rightarrow> run" where
  "genericUpdateOne m id' updateDto =
     (let query = FindOneAndUpdate [(''_id'', JStr id'), (''isDeleted'', JBool False)]
                    updateDto [(''new'', JBool True)]
      in ([query],
          case (case exec m query of
                  Inl error \<Rightarrow> Inl error
                | Inr updatedDocument \<Rightarrow>
                    if \<not> truthy updatedDocument
                    then Inl (NotFoundException
                                (modelName m @ '' Document with id '' @ id' @ '' not found''))
                    else Inr updatedDocument) of
            Inr updatedDocument \<Rightarrow> Inr updatedDocument
          | Inl error \<Rightarrow>
              if instanceof_Error error
              then Inl (BadRequestException (''Error updating document: '' @ message error))
              else Inl error))"

definition genericDeleteOne :: "dbModel \<Rightarrow> string \<Rightarrow> run" where
  "genericDeleteOne m id' =
     (let query = FindOneAndUpdate [(''_id'', JStr id'), (''isDeleted'', JBool False)]
                    (JObj [(''isDeleted'', JBool True)]) [(''new'', JBool True)]
      in ([query],
          case (case exec m query of
                  Inl error \<Rightarrow> Inl error
                | Inr deletedDocument \<Rightarrow>
                    if \<not> truthy deletedDocument
                    then Inl (NotFoundException
                                (modelName m @ '' Document with id '' @ id' @ '' not found''))
                    else Inr deletedDocument) of
            Inr deletedDocument \<Rightarrow> Inr deletedDocument
          | Inl error \<Rightarrow>
              if instanceof_Error error
              then Inl (BadRequestException (''Error deleting document: '' @ message error))
              else Inl error))"

text \<open>The object literal \<open>{ ...filter, isDeleted: false }\<close>: the spread first, then the
  key \<open>isDeleted\<close>, which replaces the value of a key of that name already there.\<close>

definition notDeleted :: "jsval \<Rightarrow> props" where
  "notDeleted filter' = AList.update ''isDeleted'' (JBool False) (spread filter')"

definition genericFindOne :: "dbModel \<Rightarrow> jsval \<Rightarrow> run" where
  "genericFindOne m filter' =
     (let query = FindOne (notDeleted filter') None
      in ([query],
          case exec m query of
            Inr response \<Rightarrow> Inr response
          | Inl error \<Rightarrow>
              if instanceof_Error error
              then Inl (NotFoundException
                          (''Error finding document by filter: '' @ message error))
              else Inl error))"

text \<open>
  In the two methods below the query object is built first, but it is sent only by
  \<open>.exec()\<close>, after \<open>normalizePopulate\<close>: when the normalizer throws, nothing is sent and
  the handler receives the normalizer's error.
\<close>

definition genericFindOneWithPopulate :: "dbModel \<Rightarrow> jsval \<Rightarrow> jsval \<Rightarrow> run" where
  "genericFindOneWithPopulate m filter' populateOptions =
     (let (sent, settled) =
            (case normalizePopulate populateOptions of
               Inl error \<Rightarrow> ([], Inl error)
             | Inr normalizedPopulate \<Rightarrow>
                 (let query = FindOne (notDeleted filter')
                                (if truthy normalizedPopulate then Some normalizedPopulate
                                 else None)
                  in ([query], exec m query)))
      in (sent,
          case settled of
            Inr response \<Rightarrow> Inr response
          | Inl error \<Rightarrow>
              if instanceof_Error error
              then Inl (NotFoundException
                          (''Error finding and populating document: '' @ message error))
              else Inl error))"

definition genericFindAllWithPopulate :: "dbModel \<Rightarrow> jsval \<Rightarrow> jsval \<Rightarrow> run" where
  "genericFindAllWithPopulate m filter' populateOptions =
     (let (sent, settled) =
            (case normalizePopulate populateOptions of
               Inl error \<Rightarrow> ([], Inl error)
             | Inr normalizedPopulate \<Rightarrow>
                 (let query = Find (notDeleted filter')
                                (if truthy normalizedPopulate then Some normalizedPopulate
                                 else None)
                  in ([query], exec m query)))
      in (sent,
          case settled of
            Inr response \<Rightarrow> Inr response
          | Inl error \<Rightarrow>
              if instanceof_Error error
              then Inl (NotFoundException
                          (''Error finding and populating documents: '' @ message error))
              else Inl error))"

definition genericFindOneOrNotFound :: "dbModel \<Rightarrow> jsval \<Rightarrow> run" where
  "genericFindOneOrNotFound m filter' =
     (let query = FindOne (notDeleted filter') None
      in ([query],
          case (case exec m query of
                  Inl error \<Rightarrow> Inl error
                | Inr response \<Rightarrow>
                    if \<not> truthy response
                    then Inl (NotFoundException
                                (modelName m @ '' Document not found with provided filter''))
                    else Inr response) of
            Inr response \<Rightarrow> Inr response
          | Inl error \<Rightarrow>
              if instanceof_Error error
              then Inl (NotFoundException
                          (''Error finding document by filter: '' @ message error))
              else Inl error))"

text \<open>The ten public methods of the class as one interface: a method with its
  arguments (an omitted optional argument is \<open>None\<close> or \<open>JUndefined\<close>).\<close>

datatype request =
    GenericFindByUsername string "string list option"
  | GenericFindAll
  | GenericFindOneByIdOrNotFound string "string list option"
  | GenericCreateOne jsval
  | GenericUpdateOne string jsval
  | GenericDeleteOne string
  | GenericFindOne jsval
  | GenericFindOneWithPopulate jsval jsval
  | GenericFindAllWithPopulate jsval jsval
  | GenericFindOneOrNotFound jsval

fun invoke :: "dbModel \<Rightarrow> request \<Rightarrow> run" where
  "invoke m (GenericFindByUsername username populateFields) =
     genericFindByUsername m username populateFields"
| "invoke m GenericFindAll = genericFindAll m"
| "invoke m (GenericFindOneByIdOrNotFound id' populateFields) =
     genericFindOneByIdOrNotFound m id' populateFields"
| "invoke m (GenericCreateOne createDto) = genericCreateOne m createDto"
| "invoke m (GenericUpdateOne id' updateDto) = genericUpdateOne m id' updateDto"
| "invoke m (GenericDeleteOne id') = genericDeleteOne m id'"
| "invoke m (GenericFindOne filter') = genericFindOne m filter'"
| "invoke m (GenericFindOneWithPopulate filter' populateOptions) =
     genericFindOneWithPopulate m filter' populateOptions"
| "invoke m (GenericFindAllWithPopulate filter' populateOptions) =
     genericFindAllWithPopulate m filter' populateOptions"
| "invoke m (GenericFindOneOrNotFound filter') = genericFindOneOrNotFound m filter'"

fun is_create :: "request \<Rightarrow> bool" where
  "is_create (GenericCreateOne createDto) = True"
| "is_create r = False"

text \<open>The three methods whose source has no \<open>if (!response)\<close> test.\<close>

fun returns_result_as_is :: "request \<Rightarrow> bool" where
  "returns_result_as_is (GenericFindOne filter') = True"
| "returns_result_as_is (GenericFindOneWithPopulate filter' populateOptions) = True"
| "returns_result_as_is (GenericFindAllWithPopulate filter' populateOptions) = True"
| "returns_result_as_is r = False"

fun is_exception :: "thrown + jsval \<Rightarrow> bool" where
  "is_exception (Inl (NotFoundException msg)) = True"
| "is_exception (Inl (BadRequestException msg)) = True"
| "is_exception x = False"

subsection \<open>Example mappers\<close>

text \<open>A mapper whose every query finds nothing, one whose every query is rejected with
  an \<open>Error\<close>, one rejecting with a plain string, and one that finds a document.\<close>

fun finds_nothing :: "call \<Rightarrow> thrown + jsval" where
  "finds_nothing c = Inr JNull"

fun rejects_with_Error :: "call \<Rightarrow> thrown + jsval" where
  "rejects_with_Error c = Inl (Error ''E11000 duplicate key'')"

fun rejects_with_string :: "call \<Rightarrow> thrown + jsval" where
  "rejects_with_string c = Inl (NonError (JStr ''timeout''))"

fun finds_ada :: "call \<Rightarrow> thrown + jsval" where
  "finds_ada c = Inr (JObj [(''username'', JStr ''ada''), (''isDeleted'', JBool False)])"

definition emptyUsers :: dbModel where
  "emptyUsers = \<lparr>modelName = ''User'', exec = finds_nothing\<rparr>"

definition brokenUsers :: dbModel where
  "brokenUsers = \<lparr>modelName = ''User'', exec = rejects_with_Error\<rparr>"

definition oddUsers :: dbModel where
  "oddUsers = \<lparr>modelName = ''User'', exec = rejects_with_string\<rparr>"

definition users :: dbModel where
  "users = \<lparr>modelName = ''User'', exec = finds_ada\<rparr>"

section \<open>Basic facts\<close>

lemmas method_defs =
  genericFindByUsername_def genericFindAll_def genericFindOneByIdOrNotFound_def
  genericCreateOne_def genericUpdateOne_def genericDeleteOne_def genericFindOne_def
  genericFindOneWithPopulate_def genericFindAllWithPopulate_def genericFindOneOrNotFound_def

lemma map_of_notDeleted:
  "map_of (notDeleted f) = (map_of (spread f))(''isDeleted'' \<mapsto> JBool False)"
  by (simp add: notDeleted_def update_conv')

text \<open>The normalizer fails only with a \<open>TypeError\<close>, and only on a truthy primitive that
  is not a string; so a thrown value that is not an \<open>Error\<close> can only come from the mapper.\<close>

lemma normalizePopulate_throws_Error:
  "normalizePopulate p = Inl e \<Longrightarrow> instanceof_Error e"
  by (cases p) (auto simp: normalizePopulate_def split: if_splits)

lemma normalizePopulate_declared_type:
  "normalizePopulate JUndefined = Inr JUndefined"
  "normalizePopulate (JStr s) = Inr (if s = [] then JUndefined else JArr [JStr s] [])"
  "normalizePopulate (JObj ps) =
     Inr (if map_of ps ''path'' \<noteq> None then JArr [JObj ps] [] else JObj ps)"
  "normalizePopulate (JArr xs ps) =
     Inr (if map_of ps ''path'' \<noteq> None then JArr [JArr xs ps] [] else JArr xs ps)"
  by (simp_all add: normalizePopulate_def)

lemma normalizePopulate_throws_only_on:
  "normalizePopulate p = Inl e \<Longrightarrow> p = JBool True \<or> (\<exists>k. k \<noteq> 0 \<and> p = JNum k)"
  by (cases p) (auto simp: normalizePopulate_def split: if_splits)

text \<open>An array literal, and any array without a \<open>path\<close> property, is returned as it is.\<close>

lemma normalizePopulate_plain_array:
  "map_of ps ''path'' = None \<Longrightarrow> normalizePopulate (JArr xs ps) = Inr (JArr xs ps)"
  by (simp add: normalizePopulate_def)

lemma sent_findOneWithPopulate:
  "fst (genericFindOneWithPopulate m f p) =
     (case normalizePopulate p of
        Inl e \<Rightarrow> []
      | Inr n \<Rightarrow> [FindOne (notDeleted f) (if truthy n then Some n else None)])"
  by (simp add: genericFindOneWithPopulate_def Let_def split: sum.splits)

lemma sent_findAllWithPopulate:
  "fst (genericFindAllWithPopulate m f p) =
     (case normalizePopulate p of
        Inl e \<Rightarrow> []
      | Inr n \<Rightarrow> [Find (notDeleted f) (if truthy n then Some n else None)])"
  by (simp add: genericFindAllWithPopulate_def Let_def split: sum.splits)

text \<open>Every method sends at most one query, and exactly one unless the normalizer threw.\<close>

lemma sent_at_most_one: "length (fst (invoke m r)) \<le> 1"
  by (cases r)
     (simp_all add: genericFindByUsername_def genericFindAll_def
        genericFindOneByIdOrNotFound_def genericCreateOne_def genericUpdateOne_def
        genericDeleteOne_def genericFindOne_def genericFindOneOrNotFound_def Let_def
        sent_findOneWithPopulate sent_findAllWithPopulate split: sum.splits)

section \<open>The soft-delete convention\<close>

text \<open>
  C1. Every read, update and delete method sends one query to the mapper, and its
  filter has \<open>isDeleted = false\<close>: the queries are listed method by method
  (\<open>notDeleted f\<close> has the flag, whatever the caller's filter \<open>f\<close> says; the two
  methods that normalize populate options send nothing when the normalizer throws, which
  by \<open>normalizePopulate_throws_only_on\<close> happens for \<open>true\<close> and non-zero numbers only).
  \<open>genericDeleteOne\<close> sends one \<open>findOneAndUpdate\<close> whose update sets \<open>isDeleted\<close> to
  \<open>true\<close>. No method, the creating one included, ever sends one of the mapper's
  removing operations.
\<close>

theorem soft_delete_convention:
  "fst (genericFindByUsername m username populateFields) =
     [FindOne [(''username'', JStr username), (''isDeleted'', JBool False)]
        (populateFields_arg populateFields)]
   \<and> fst (genericFindAll m) = [Find [(''isDeleted'', JBool False)] None]
   \<and> fst (genericFindOneByIdOrNotFound m id' populateFields) =
       [FindOne [(''_id'', JStr id'), (''isDeleted'', JBool False)]
          (populateFields_arg populateFields)]
   \<and> fst (genericUpdateOne m id' updateDto) =
       [FindOneAndUpdate [(''_id'', JStr id'), (''isDeleted'', JBool False)]
          updateDto [(''new'', JBool True)]]
   \<and> fst (genericDeleteOne m id') =
       [FindOneAndUpdate [(''_id'', JStr id'), (''isDeleted'', JBool False)]
          (JObj [(''isDeleted'', JBool True)]) [(''new'', JBool True)]]
   \<and> fst (genericFindOne m f) = [FindOne (notDeleted f) None]
   \<and> fst (genericFindOneOrNotFound m f) = [FindOne (notDeleted f) None]
   \<and> fst (genericFindOneWithPopulate m f p) =
       (case normalizePopulate p of
          Inl e \<Rightarrow> []
        | Inr n \<Rightarrow> [FindOne (notDeleted f) (if truthy n then Some n else None)])
   \<and> fst (genericFindAllWithPopulate m f p) =
       (case normalizePopulate p of
          Inl e \<Rightarrow> []
        | Inr n \<Rightarrow> [Find (notDeleted f) (if truthy n then Some n else None)])
   \<and> map_of (notDeleted f) ''isDeleted'' = Some (JBool False)
   \<and> fst (genericCreateOne m createDto) = [Save createDto]
   \<and> (c \<in> set (fst (invoke m r)) \<longrightarrow>
        \<not> is_removal c \<and>
        (\<not> is_create r \<longrightarrow>
           (\<exists>q. call_filter c = Some q \<and> map_of q ''isDeleted'' = Some (JBool False))))"
proof (intro conjI impI)
  show "fst (genericFindByUsername m username populateFields) =
     [FindOne [(''username'', JStr username), (''isDeleted'', JBool False)]
        (populateFields_arg populateFields)]"
    by (simp add: genericFindByUsername_def Let_def)
  show "fst (genericFindAll m) = [Find [(''isDeleted'', JBool False)] None]"
    by (simp add: genericFindAll_def Let_def)
  show "fst (genericFindOneByIdOrNotFound m id' populateFields) =
       [FindOne [(''_id'', JStr id'), (''isDeleted'', JBool False)]
          (populateFields_arg populateFields)]"
    by (simp add: genericFindOneByIdOrNotFound_def Let_def)
  show "fst (genericUpdateOne m id' updateDto) =
       [FindOneAndUpdate [(''_id'', JStr id'), (''isDeleted'', JBool False)]
          updateDto [(''new'', JBool True)]]"
    by (simp add: genericUpdateOne_def Let_def)
  show "fst (genericDeleteOne m id') =
       [FindOneAndUpdate [(''_id'', JStr id'), (''isDeleted'', JBool False)]
          (JObj [(''isDeleted'', JBool True)]) [(''new'', JBool True)]]"
    by (simp add: genericDeleteOne_def Let_def)
  show "fst (genericFindOne m f) = [FindOne (notDeleted f) None]"
    by (simp add: genericFindOne_def Let_def)
  show "fst (genericFindOneOrNotFound m f) = [FindOne (notDeleted f) None]"
    by (simp add: genericFindOneOrNotFound_def Let_def)
  show "fst (genericFindOneWithPopulate m f p) =
       (case normalizePopulate p of
          Inl e \<Rightarrow> []
        | Inr n \<Rightarrow> [FindOne (notDeleted f) (if truthy n then Some n else None)])"
    by (rule sent_findOneWithPopulate)
  show "fst (genericFindAllWithPopulate m f p) =
       (case normalizePopulate p of
          Inl e \<Rightarrow> []
        | Inr n \<Rightarrow> [Find (notDeleted f) (if truthy n then Some n else None)])"
    by (rule sent_findAllWithPopulate)
  show "map_of (notDeleted f) ''isDeleted'' = Some (JBool False)"
    by (simp add: map_of_notDeleted)
  show "fst (genericCreateOne m createDto) = [Save createDto]"
    by (simp add: genericCreateOne_def Let_def)
next
  assume c: "c \<in> set (fst (invoke m r))"
  show "\<not> is_removal c"
    using c
    by (cases r)
       (auto simp: method_defs Let_def sent_findOneWithPopulate sent_findAllWithPopulate
             split: sum.splits)
  assume "\<not> is_create r"
  then show "\<exists>q. call_filter c = Some q \<and> map_of q ''isDeleted'' = Some (JBool False)"
    using c
    by (cases r)
       (auto simp: genericFindByUsername_def genericFindAll_def
             genericFindOneByIdOrNotFound_def genericUpdateOne_def genericDeleteOne_def
             genericFindOne_def genericFindOneOrNotFound_def Let_def
             sent_findOneWithPopulate sent_findAllWithPopulate map_of_notDeleted
             split: sum.splits)
qed

theorem soft_delete_convention_witness:
  "fst (genericFindAll users) = [Find [(''isDeleted'', JBool False)] None]
   \<and> fst (genericUpdateOne users ''42'' (JObj [(''name'', JStr ''Ada'')])) =
       [FindOneAndUpdate [(''_id'', JStr ''42''), (''isDeleted'', JBool False)]
          (JObj [(''name'', JStr ''Ada'')]) [(''new'', JBool True)]]
   \<and> fst (genericDeleteOne users ''42'') =
       [FindOneAndUpdate [(''_id'', JStr ''42''), (''isDeleted'', JBool False)]
          (JObj [(''isDeleted'', JBool True)]) [(''new'', JBool True)]]
   \<and> fst (genericFindOneWithPopulate users (JObj [(''isDeleted'', JBool True)])
             (JStr ''owner'')) =
       [FindOne [(''isDeleted'', JBool False)] (Some (JArr [JStr ''owner''] []))]
   \<and> Find [(''isDeleted'', JBool False)] None \<in> set (fst (invoke users GenericFindAll))
   \<and> \<not> is_create GenericFindAll
   \<and> \<not> is_removal (Find [(''isDeleted'', JBool False)] None)
   \<and> call_filter (Find [(''isDeleted'', JBool False)] None) =
       Some [(''isDeleted'', JBool False)]
   \<and> map_of [(''isDeleted'', JBool False)] ''isDeleted'' = Some (JBool False)"
  using soft_delete_convention
    [where m = users and id' = "''42''" and updateDto = "JObj [(''name'', JStr ''Ada'')]"
       and f = "JObj [(''isDeleted'', JBool True)]" and p = "JStr ''owner''"
       and c = "Find [(''isDeleted'', JBool False)] None" and r = GenericFindAll]
  by (simp add: normalizePopulate_def notDeleted_def)

text \<open>
  C10. The four methods that take a filter send \<open>notDeleted filter\<close>, the spread of the
  caller's filter with \<open>isDeleted\<close> set to \<open>false\<close> afterwards: as a map it is the
  caller's filter overridden at \<open>isDeleted\<close>, so an \<open>isDeleted: true\<close> of the caller
  never reaches the mapper.
\<close>

theorem filter_isDeleted_overridden:
  "fst (genericFindOne m f) = [FindOne (notDeleted f) None]
   \<and> fst (genericFindOneOrNotFound m f) = [FindOne (notDeleted f) None]
   \<and> (c \<in> set (fst (genericFindOneWithPopulate m f p)) \<longrightarrow>
        call_filter c = Some (notDeleted f))
   \<and> (c \<in> set (fst (genericFindAllWithPopulate m f p)) \<longrightarrow>
        call_filter c = Some (notDeleted f))
   \<and> map_of (notDeleted f) = (map_of (spread f))(''isDeleted'' \<mapsto> JBool False)
   \<and> map_of (notDeleted f) ''isDeleted'' = Some (JBool False)"
proof (intro conjI impI)
  show "fst (genericFindOne m f) = [FindOne (notDeleted f) None]"
    by (simp add: genericFindOne_def Let_def)
  show "fst (genericFindOneOrNotFound m f) = [FindOne (notDeleted f) None]"
    by (simp add: genericFindOneOrNotFound_def Let_def)
  show "call_filter c = Some (notDeleted f)"
    if "c \<in> set (fst (genericFindOneWithPopulate m f p))"
    using that by (auto simp: sent_findOneWithPopulate split: sum.splits)
  show "call_filter c = Some (notDeleted f)"
    if "c \<in> set (fst (genericFindAllWithPopulate m f p))"
    using that by (auto simp: sent_findAllWithPopulate split: sum.splits)
  show "map_of (notDeleted f) = (map_of (spread f))(''isDeleted'' \<mapsto> JBool False)"
    by (rule map_of_notDeleted)
  then show "map_of (notDeleted f) ''isDeleted'' = Some (JBool False)"
    by simp
qed

theorem filter_isDeleted_overridden_witness:
  "FindOne [(''isDeleted'', JBool False), (''role'', JStr ''admin'')]
       (Some (JArr [JStr ''owner''] []))
     \<in> set (fst (genericFindOneWithPopulate users
                   (JObj [(''isDeleted'', JBool True), (''role'', JStr ''admin'')])
                   (JStr ''owner'')))
   \<and> Find [(''isDeleted'', JBool False), (''role'', JStr ''admin'')] None
     \<in> set (fst (genericFindAllWithPopulate users
                   (JObj [(''isDeleted'', JBool True), (''role'', JStr ''admin'')])
                   JUndefined))
   \<and> notDeleted (JObj [(''isDeleted'', JBool True), (''role'', JStr ''admin'')]) =
       [(''isDeleted'', JBool False), (''role'', JStr ''admin'')]
   \<and> fst (genericFindOne users
             (JObj [(''isDeleted'', JBool True), (''role'', JStr ''admin'')])) =
       [FindOne [(''isDeleted'', JBool False), (''role'', JStr ''admin'')] None]"
  using
    filter_isDeleted_overridden
      [of users "JObj [(''isDeleted'', JBool True), (''role'', JStr ''admin'')]"
          "FindOne [(''isDeleted'', JBool False), (''role'', JStr ''admin'')]
             (Some (JArr [JStr ''owner''] []))"
          "JStr ''owner''"]
    filter_isDeleted_overridden
      [of users "JObj [(''isDeleted'', JBool True), (''role'', JStr ''admin'')]"
          "Find [(''isDeleted'', JBool False), (''role'', JStr ''admin'')] None"
          JUndefined]
  by (simp add: sent_findOneWithPopulate sent_findAllWithPopulate normalizePopulate_def
        notDeleted_def)

section \<open>Error translation\<close>

text \<open>
  C2. A missing result in \<open>genericUpdateOne\<close> and \<open>genericDeleteOne\<close>: the
  \<open>NotFoundException\<close> thrown inside the \<open>try\<close> block is caught by the method's own
  handler, which wraps every \<open>Error\<close> in a \<open>BadRequestException\<close>. On a mapper that
  finds no document, both calls end in the "bad request" exception.
\<close>

theorem update_delete_missing_gives_bad_request:
  "snd (genericUpdateOne emptyUsers ''42'' (JObj [(''name'', JStr ''Ada'')])) =
     Inl (BadRequestException ''Error updating document: User Document with id 42 not found'')
   \<and> snd (genericDeleteOne emptyUsers ''42'') =
     Inl (BadRequestException ''Error deleting document: User Document with id 42 not found'')"
  by (simp add: genericUpdateOne_def genericDeleteOne_def emptyUsers_def Let_def)

text \<open>
  C3, as stated, fails: \<open>genericFindOne\<close> hands a \<open>null\<close> result back to its caller.
\<close>

theorem genericFindOne_returns_null:
  "exec emptyUsers (FindOne [(''isDeleted'', JBool False)] None) = Inr JNull
   \<and> snd (genericFindOne emptyUsers (JObj [])) = Inr JNull"
  by (simp add: genericFindOne_def emptyUsers_def Let_def notDeleted_def)

text \<open>
  C3, amended. When the awaited query yields \<open>null\<close>, \<open>genericFindOne\<close>,
  \<open>genericFindOneWithPopulate\<close> and \<open>genericFindAllWithPopulate\<close> return \<open>null\<close>;
  each of the other seven methods raises a \<open>NotFoundException\<close> or a
  \<open>BadRequestException\<close>.
\<close>

theorem null_result_conversion:
  "c \<in> set (fst (invoke m r)) \<Longrightarrow> exec m c = Inr JNull \<Longrightarrow>
     (if returns_result_as_is r then snd (invoke m r) = Inr JNull
      else is_exception (snd (invoke m r)))"
  by (cases r)
     (auto simp: method_defs Let_def split: sum.splits prod.splits if_splits)

theorem null_result_conversion_witness:
  "FindOne [(''_id'', JStr ''42''), (''isDeleted'', JBool False)] None
     \<in> set (fst (invoke emptyUsers (GenericFindOneByIdOrNotFound ''42'' None)))
   \<and> exec emptyUsers (FindOne [(''_id'', JStr ''42''), (''isDeleted'', JBool False)] None)
       = Inr JNull
   \<and> \<not> returns_result_as_is (GenericFindOneByIdOrNotFound ''42'' None)
   \<and> is_exception (snd (invoke emptyUsers (GenericFindOneByIdOrNotFound ''42'' None)))
   \<and> Find [(''isDeleted'', JBool False)] None
     \<in> set (fst (invoke emptyUsers (GenericFindAllWithPopulate JUndefined JUndefined)))
   \<and> returns_result_as_is (GenericFindAllWithPopulate JUndefined JUndefined)
   \<and> snd (invoke emptyUsers (GenericFindAllWithPopulate JUndefined JUndefined)) = Inr JNull"
  using
    null_result_conversion
      [of "FindOne [(''_id'', JStr ''42''), (''isDeleted'', JBool False)] None"
          emptyUsers "GenericFindOneByIdOrNotFound ''42'' None"]
    null_result_conversion
      [of "Find [(''isDeleted'', JBool False)] None"
          emptyUsers "GenericFindAllWithPopulate JUndefined JUndefined"]
  by (simp add: genericFindOneByIdOrNotFound_def sent_findAllWithPopulate
        normalizePopulate_def notDeleted_def emptyUsers_def Let_def)

text \<open>
  C4. When the mapper finds no document with the given id that is not deleted (its
  \<open>findOne\<close> on \<open>{_id: id, isDeleted: false}\<close> resolves to \<open>null\<close>),
  \<open>genericFindOneByIdOrNotFound\<close> raises the \<open>NotFoundException\<close> built in the \<open>try\<close>
  block, with that message: the handler passes it on and does not wrap it.
\<close>

theorem findOneById_missing_raises_not_found:
  "exec m (FindOne [(''_id'', JStr id'), (''isDeleted'', JBool False)]
             (populateFields_arg populateFields)) = Inr JNull \<Longrightarrow>
   snd (genericFindOneByIdOrNotFound m id' populateFields) =
     Inl (NotFoundException (modelName m @ '' Document with id '' @ id' @ '' not found''))"
  by (simp add: genericFindOneByIdOrNotFound_def Let_def)

theorem findOneById_missing_raises_not_found_witness:
  "exec emptyUsers (FindOne [(''_id'', JStr ''42''), (''isDeleted'', JBool False)]
             (populateFields_arg (Some [''profile'']))) = Inr JNull
   \<and> snd (genericFindOneByIdOrNotFound emptyUsers ''42'' (Some [''profile''])) =
     Inl (NotFoundException ''User Document with id 42 not found'')"
  using findOneById_missing_raises_not_found [of emptyUsers "''42''" "Some [''profile'']"]
  by (simp add: emptyUsers_def)

text \<open>
  C5. When the save of a create DTO is rejected with an \<open>Error\<close>, \<open>genericCreateOne\<close>
  raises a \<open>BadRequestException\<close> (whose message carries the message of that error).
\<close>

theorem createOne_rejected_raises_bad_request:
  "exec m (Save createDto) = Inl e \<Longrightarrow> instanceof_Error e \<Longrightarrow>
   snd (genericCreateOne m createDto) =
     Inl (BadRequestException (''Error creating document: '' @ message e))"
  by (simp add: genericCreateOne_def Let_def)

theorem createOne_rejected_raises_bad_request_witness:
  "exec brokenUsers (Save (JObj [(''username'', JStr ''ada'')])) =
     Inl (Error ''E11000 duplicate key'')
   \<and> instanceof_Error (Error ''E11000 duplicate key'')
   \<and> snd (genericCreateOne brokenUsers (JObj [(''username'', JStr ''ada'')])) =
     Inl (BadRequestException ''Error creating document: E11000 duplicate key'')"
  using createOne_rejected_raises_bad_request
    [of brokenUsers "JObj [(''username'', JStr ''ada'')]" "Error ''E11000 duplicate key''"]
  by (simp add: brokenUsers_def)

text \<open>
  C6. In every method, when the query is rejected with a value that is not an instance
  of \<open>Error\<close>, the method is rejected with that same value.
\<close>

theorem non_Error_rethrown_unchanged:
  "c \<in> set (fst (invoke m r)) \<Longrightarrow> exec m c = Inl e \<Longrightarrow> \<not> instanceof_Error e \<Longrightarrow>
   snd (invoke m r) = Inl e"
  by (cases r; cases e)
     (auto simp: method_defs Let_def split: sum.splits prod.splits if_splits)

theorem non_Error_rethrown_unchanged_witness:
  "Save JNull \<in> set (fst (invoke oddUsers (GenericCreateOne JNull)))
   \<and> exec oddUsers (Save JNull) = Inl (NonError (JStr ''timeout''))
   \<and> \<not> instanceof_Error (NonError (JStr ''timeout''))
   \<and> snd (invoke oddUsers (GenericCreateOne JNull)) = Inl (NonError (JStr ''timeout''))"
  using non_Error_rethrown_unchanged
    [of "Save JNull" oddUsers "GenericCreateOne JNull" "NonError (JStr ''timeout'')"]
  by (simp add: genericCreateOne_def oddUsers_def Let_def)

section \<open>Populate normalization\<close>

text \<open>
  C7, as stated, fails at the empty string: it is falsy, so the first test of
  \<open>normalizePopulate\<close> returns \<open>undefined\<close> for it.
\<close>

theorem normalizePopulate_empty_string:
  "normalizePopulate (JStr []) = Inr JUndefined
   \<and> normalizePopulate (JStr []) \<noteq> Inr (JArr [JStr []] [])"
  by (simp add: normalizePopulate_def)

text \<open>
  C7, amended. For every non-empty string \<open>s\<close>, \<open>normalizePopulate(s)\<close> returns the
  one-element array \<open>[s]\<close>.
\<close>

theorem normalizePopulate_string:
  "s \<noteq> [] \<Longrightarrow> normalizePopulate (JStr s) = Inr (JArr [JStr s] [])"
  by (simp add: normalizePopulate_def)

theorem normalizePopulate_string_witness:
  "''user'' \<noteq> [] \<and> normalizePopulate (JStr ''user'') = Inr (JArr [JStr ''user''] [])"
  using normalizePopulate_string [of "''user''"] by simp

text \<open>
  C8. For every object \<open>o\<close> that has a \<open>path\<close> key, \<open>normalizePopulate(o)\<close> returns the
  one-element array \<open>[o]\<close>.
\<close>

theorem normalizePopulate_path_object:
  "map_of ps ''path'' \<noteq> None \<Longrightarrow> normalizePopulate (JObj ps) = Inr (JArr [JObj ps] [])"
  by (simp add: normalizePopulate_def)

theorem normalizePopulate_path_object_witness:
  "map_of [(''path'', JStr ''user''), (''select'', JStr ''name email'')] ''path'' \<noteq> None
   \<and> normalizePopulate (JObj [(''path'', JStr ''user''), (''select'', JStr ''name email'')]) =
       Inr (JArr [JObj [(''path'', JStr ''user''), (''select'', JStr ''name email'')]] [])"
  using normalizePopulate_path_object
    [of "[(''path'', JStr ''user''), (''select'', JStr ''name email'')]"]
  by simp


end
